theory Spec2Isabelle
  imports Main "HOL-Library.AList"
begin

section \<open>Report store (package engine, store.go)\<close>

text \<open>
  The store keeps \<open>map[string]report.Report\<close> behind a pointer-like map value. Go maps
  are references, so the map objects live in an explicit heap: a list of map contents,
  a reference being an index into it. \<open>make\<close> and \<open>maps.Clone\<close> allocate at the end of
  the heap. The field \<open>reports\<close> of the store is either nil (\<open>None\<close>) or a reference.

  \<open>report.Report\<close> and its decoder \<open>UnmarshalJSONTimeAsString\<close> belong to the external
  package vulcan-report; the record keeps the fields that \<open>Summary\<close> prints and the decoder
  is a parameter of the model.
\<close>

record report =
  rep_ChecktypeName :: string
  rep_Target :: string
  rep_StartTime :: string
  rep_Status :: string

type_synonym ref = nat
type_synonym reports_map = "string \<rightharpoonup> report"
type_synonym heap = "reports_map list"

record reportStore =
  reports :: "ref option"

datatype store_error =
    DecodeContent
  | UnknownDataKind string

definition make_map :: "heap \<Rightarrow> ref \<times> heap" where
  "make_map h = (length h, h @ [Map.empty])"

text \<open>What a reader of the store sees: a nil map reads as the empty map.\<close>

definition map_at :: "ref option \<Rightarrow> heap \<Rightarrow> reports_map" where
  "map_at m h = (case m of None \<Rightarrow> Map.empty | Some a \<Rightarrow> h ! a)"

definition contents :: "reportStore \<Rightarrow> heap \<Rightarrow> reports_map" where
  "contents rs h = map_at (reports rs) h"

text \<open>
  \<open>UploadCheckData\<close> returns the pair \<open>(link, err)\<close>; \<open>err\<close> is \<open>None\<close> for Go's nil.
  The lazy \<open>make\<close> runs before the switch on \<open>kind\<close>, whatever the kind.
\<close>

definition init_reports :: "reportStore \<Rightarrow> heap \<Rightarrow> ref \<times> reportStore \<times> heap" where
  "init_reports rs h =
     (case reports rs of
        None \<Rightarrow> (let (a, h') = make_map h in (a, rs\<lparr>reports := Some a\<rparr>, h'))
      | Some a \<Rightarrow> (a, rs, h))"

definition UploadCheckData ::
  "(string \<Rightarrow> report option) \<Rightarrow> string \<Rightarrow> string \<Rightarrow> nat \<Rightarrow> string \<Rightarrow>
   reportStore \<Rightarrow> heap \<Rightarrow> (string \<times> store_error option) \<times> reportStore \<times> heap" where
  "UploadCheckData decode checkID kind startedAt content rs h =
     (let (a, rs1, h1) = init_reports rs h in
      if kind = ''reports'' then
        (case decode content of
           None \<Rightarrow> (('''', Some DecodeContent), rs1, h1)
         | Some r \<Rightarrow> (('''', None), rs1, h1[a := (h1 ! a)(checkID \<mapsto> r)]))
      else if kind = ''logs'' then (('''', None), rs1, h1)
      else (('''', Some (UnknownDataKind kind)), rs1, h1))"





text \<open>The store's reference, when not nil, points into the heap.\<close>

definition store_ok :: "reportStore \<Rightarrow> heap \<Rightarrow> bool" where
  "store_ok rs h = (case reports rs of None \<Rightarrow> True | Some a \<Rightarrow> a < length h)"

section \<open>Checktypes and catalogs (package checktypes, checktypes.go)\<close>

text \<open>
  Go's \<open>any\<close> values as they occur in option maps and required-variable lists.
  A Go map with string keys that the code ranges over is an association list with
  distinct keys; \<open>m[k] = v\<close> is \<^const>\<open>AList.update\<close>.
\<close>

datatype any =
    Str string
  | Num int
  | Bool bool
  | Null
  | Arr "any list"
  | Obj "(string \<times> any) list"

type_synonym options = "(string \<times> any) list"

record Checktype =
  ct_Name :: string
  ct_Description :: string
  ct_Image :: string
  ct_Timeout :: int
  ct_Options :: options
  ct_RequiredVars :: "any list"
  ct_Assets :: "string list"

type_synonym Catalog = "(string \<times> Checktype) list"

text \<open>\<open>Accepts\<close>: the loop over \<open>ct.Assets\<close> returns at the first equal entry.\<close>

fun accepts_loop :: "string list \<Rightarrow> string \<Rightarrow> bool" where
  "accepts_loop [] at = False"
| "accepts_loop (accepted # rest) at = (if accepted = at then True else accepts_loop rest at)"

definition Accepts :: "Checktype \<Rightarrow> string \<Rightarrow> bool" where
  "Accepts ct at = accepts_loop (ct_Assets ct) at"

datatype 'e catalog_error =
    ErrMissingCatalog
  | ErrInvalidURL
  | ErrMalformedCatalog
  | StatFailed
  | GetFailed
  | BuildFailed 'e

record url =
  Scheme :: string
  Path :: string

datatype stat_result = NotExist | StatError | IsDirectory | IsRegular

text \<open>
  What \<open>NewCatalog\<close> asks of the outside world: \<open>url.Parse\<close>, \<open>os.Stat\<close>, \<open>urlutil.Get\<close>,
  \<open>json.Unmarshal\<close> into the \<open>checktypes\<close> list, and \<open>build.Code.Build\<close>, which changes the
  state \<open>'w\<close> of the container engine.
\<close>

record ('w, 'e) env =
  parseURL :: "string \<Rightarrow> url option"
  stat :: "string \<Rightarrow> stat_result"
  get :: "url \<Rightarrow> string option"
  unmarshal :: "string \<Rightarrow> Checktype list option"
  build :: "string \<Rightarrow> 'w \<Rightarrow> ('e + Checktype) \<times> 'w"

definition isDir :: "('w, 'e) env \<Rightarrow> url \<Rightarrow> 'e catalog_error + bool" where
  "isDir env u =
     (if Scheme u \<noteq> '''' then Inr False
      else case stat env (Path u) of
             NotExist \<Rightarrow> Inr False
           | StatError \<Rightarrow> Inl StatFailed
           | IsDirectory \<Rightarrow> Inr True
           | IsRegular \<Rightarrow> Inr False)"

text \<open>The body of the loop of \<open>NewCatalog\<close> up to the insertions: the descriptors that one
  source yields, the single built checktype for a directory and the decoded list otherwise.\<close>

definition resolve ::
  "('w, 'e) env \<Rightarrow> string \<Rightarrow> 'w \<Rightarrow> ('e catalog_error + Checktype list) \<times> 'w" where
  "resolve env u w =
     (case parseURL env u of
        None \<Rightarrow> (Inl ErrInvalidURL, w)
      | Some parsedURL \<Rightarrow>
          (case isDir env parsedURL of
             Inl e \<Rightarrow> (Inl e, w)
           | Inr True \<Rightarrow>
               (case build env (Path parsedURL) w of
                  (Inl e, w') \<Rightarrow> (Inl (BuildFailed e), w')
                | (Inr checktype, w') \<Rightarrow> (Inr [checktype], w'))
           | Inr False \<Rightarrow>
               (case get env parsedURL of
                  None \<Rightarrow> (Inl GetFailed, w)
                | Some data \<Rightarrow>
                    (case unmarshal env data of
                       None \<Rightarrow> (Inl ErrMalformedCatalog, w)
                     | Some decData \<Rightarrow> (Inr decData, w)))))"

text \<open>\<open>checktypes[checktype.Name] = checktype\<close>, for each descriptor of a source in turn.\<close>

definition insert_all :: "Checktype list \<Rightarrow> Catalog \<Rightarrow> Catalog" where
  "insert_all cts checktypes = fold (\<lambda>ct. AList.update (ct_Name ct) ct) cts checktypes"

fun catalog_loop ::
  "('w, 'e) env \<Rightarrow> string list \<Rightarrow> Catalog \<Rightarrow> 'w \<Rightarrow> ('e catalog_error + Catalog) \<times> 'w" where
  "catalog_loop env [] checktypes w = (Inr checktypes, w)"
| "catalog_loop env (u # us) checktypes w =
     (case resolve env u w of
        (Inl e, w') \<Rightarrow> (Inl e, w')
      | (Inr cts, w') \<Rightarrow> catalog_loop env us (insert_all cts checktypes) w')"

definition NewCatalog ::
  "('w, 'e) env \<Rightarrow> string list \<Rightarrow> 'w \<Rightarrow> ('e catalog_error + Catalog) \<times> 'w" where
  "NewCatalog env urls w =
     (if length urls = 0 then (Inl ErrMissingCatalog, w)
      else catalog_loop env urls [] w)"

text \<open>The descriptors that the sources yield, in the order of the sources, up to the first
  source that fails.\<close>

fun produced :: "('w, 'e) env \<Rightarrow> string list \<Rightarrow> 'w \<Rightarrow> Checktype list" where
  "produced env [] w = []"
| "produced env (u # us) w =
     (case resolve env u w of
        (Inl e, w') \<Rightarrow> []
      | (Inr cts, w') \<Rightarrow> cts @ produced env us w')"

text \<open>A catalog that \<open>NewCatalog\<close> returns is keyed by the names of its checktypes, each
  name once.\<close>

definition catalog_ok :: "Catalog \<Rightarrow> bool" where
  "catalog_ok cat = (distinct (map fst cat) \<and> list_all (\<lambda>(n, ct). ct_Name ct = n) cat)"

section \<open>Check and job generation (package engine)\<close>

text \<open>
  The functions \<open>generateChecks\<close> and \<open>generateJobs\<close> are exercised by
  \<open>TestGenerateChecks\<close> and \<open>TestGenerateJobs\<close>, but their bodies are not among the
  sources at hand; they are modelled from the specification (sections 3, 4.3 and 4.4), and
  entries of the test tables serve as instances below.
\<close>

record Target =
  tg_Identifier :: string
  tg_AssetType :: string
  tg_Options :: options

record check =
  chk_id :: string
  chk_checktype :: Checktype
  chk_target :: Target
  chk_options :: options

record Job =
  job_CheckID :: string
  job_Image :: string
  job_Target :: string
  job_AssetType :: string
  job_Options :: string
  job_RequiredVars :: "string list"

datatype check_error = InvalidAssetType string

datatype job_error =
    GenerateChecks check_error
  | InvalidRequiredVarType any

text \<open>Modelled from the spec: the validity test of a target's asset type is missing (it
  belongs to generateChecks). The tag must be present and drawn from the fixed enumeration
  \<open>enum\<close>, which the model takes as a parameter.\<close>

definition valid_target :: "string list \<Rightarrow> Target \<Rightarrow> bool" where
  "valid_target enum t = (tg_AssetType t \<noteq> '''' \<and> tg_AssetType t \<in> set enum)"

text \<open>Modelled from the spec: the options merge of generateChecks is missing. The default
  options are copied (a value here) and every key of the target's override map is set into
  the copy.\<close>

definition mergeOptions :: "options \<Rightarrow> options \<Rightarrow> options" where
  "mergeOptions defaults overrides = fold (\<lambda>(k, v). AList.update k v) overrides defaults"

text \<open>Modelled from the spec: the pairing of generateChecks is missing. A pair is included
  iff the checktype accepts the target's asset type (\<open>Accepts\<close> is the source's).\<close>

definition compatible_pairs :: "Catalog \<Rightarrow> Target list \<Rightarrow> (Checktype \<times> Target) list" where
  "compatible_pairs catalog targets =
     concat (map (\<lambda>t. map (\<lambda>(n, ct). (ct, t))
                          (filter (\<lambda>(n, ct). Accepts ct (tg_AssetType t)) catalog))
                 targets)"

text \<open>Modelled from the spec: the deduplication of generateChecks is missing. Pairs are
  deduplicated by (checktype name, target identifier, target asset type); the first pair
  of each key is kept.\<close>

definition pair_key :: "Checktype \<times> Target \<Rightarrow> string \<times> string \<times> string" where
  "pair_key p = (ct_Name (fst p), tg_Identifier (snd p), tg_AssetType (snd p))"

fun dedup_loop ::
  "(string \<times> string \<times> string) list \<Rightarrow> (Checktype \<times> Target) list \<Rightarrow> (Checktype \<times> Target) list" where
  "dedup_loop seen [] = []"
| "dedup_loop seen (p # ps) =
     (if pair_key p \<in> set seen then dedup_loop seen ps
      else p # dedup_loop (pair_key p # seen) ps)"

definition new_check :: "string \<Rightarrow> Checktype \<times> Target \<Rightarrow> check" where
  "new_check i p =
     \<lparr>chk_id = i, chk_checktype = fst p, chk_target = snd p,
      chk_options = mergeOptions (ct_Options (fst p)) (tg_Options (snd p))\<rparr>"

text \<open>Modelled from the spec: generateChecks is missing. An invalid asset type on any target
  fails the whole operation; otherwise one check per deduplicated compatible pair, the
  \<open>i\<close>-th check carrying the generated identifier \<open>ids i\<close>.\<close>

definition generateChecks ::
  "(nat \<Rightarrow> string) \<Rightarrow> string list \<Rightarrow> Catalog \<Rightarrow> Target list \<Rightarrow> check_error + check list" where
  "generateChecks ids enum catalog targets =
     (case List.find (\<lambda>t. \<not> valid_target enum t) targets of
        Some t \<Rightarrow> Inl (InvalidAssetType (tg_AssetType t))
      | None \<Rightarrow>
          Inr (map (\<lambda>(i, p). new_check (ids i) p)
                 (enumerate 0 (dedup_loop [] (compatible_pairs catalog targets)))))"

text \<open>Modelled from the spec: the validation of the required variables in generateJobs is
  missing. Every entry must be a string; the first entry of another type is the error.\<close>

fun required_vars :: "any list \<Rightarrow> job_error + string list" where
  "required_vars [] = Inr []"
| "required_vars (Str s # vs) =
     (case required_vars vs of Inl e \<Rightarrow> Inl e | Inr ss \<Rightarrow> Inr (s # ss))"
| "required_vars (v # vs) = Inl (InvalidRequiredVarType v)"

text \<open>Modelled from the spec: the projection of generateJobs is missing. The options are
  serialised by \<open>marshal\<close> (the JSON encoder, a parameter); a job is emitted for a check
  only after its required variables have been validated, and the first failure ends the
  loop with no jobs.\<close>

fun jobs_loop :: "(options \<Rightarrow> string) \<Rightarrow> check list \<Rightarrow> job_error + Job list" where
  "jobs_loop marshal [] = Inr []"
| "jobs_loop marshal (c # cs) =
     (case required_vars (ct_RequiredVars (chk_checktype c)) of
        Inl e \<Rightarrow> Inl e
      | Inr reqVars \<Rightarrow>
          (case jobs_loop marshal cs of
             Inl e \<Rightarrow> Inl e
           | Inr jobs \<Rightarrow>
               Inr (\<lparr>job_CheckID = chk_id c,
                     job_Image = ct_Image (chk_checktype c),
                     job_Target = tg_Identifier (chk_target c),
                     job_AssetType = tg_AssetType (chk_target c),
                     job_Options = marshal (chk_options c),
                     job_RequiredVars = reqVars\<rparr> # jobs)))"

text \<open>Modelled from the spec: generateJobs is missing. It calls generateChecks, then
  projects.\<close>

definition generateJobs ::
  "(options \<Rightarrow> string) \<Rightarrow> (nat \<Rightarrow> string) \<Rightarrow> string list \<Rightarrow> Catalog \<Rightarrow> Target list \<Rightarrow>
   job_error + Job list" where
  "generateJobs marshal ids enum catalog targets =
     (case generateChecks ids enum catalog targets of
        Inl e \<Rightarrow> Inl (GenerateChecks e)
      | Inr checks \<Rightarrow> jobs_loop marshal checks)"

section \<open>Building checktypes from code (package build)\<close>

subsection \<open>Time stamps\<close>

text \<open>
  A \<open>time.Time\<close> is modelled by its civil fields in UTC, normalised, so that two values
  denote the same instant iff their fields agree. The label of an image carries the time
  in the layout \<open>time.RFC822\<close>, "02 Jan 06 15:04 MST": day, month name, two-digit year,
  hour and minute, then the zone, which is "UTC" throughout. Seconds and nanoseconds are
  not printed. \<open>Parse_RFC822\<close> reads the texts of exactly this shape (Go also accepts a
  one-digit hour, runs of spaces, another letter case in the month and other zone names)
  and applies Go's rules: a two-digit year from 69 on is in the 1900s, below it in the
  2000s, and day, hour and minute must be in range.
\<close>

record time =
  t_year :: nat
  t_month :: nat
  t_day :: nat
  t_hour :: nat
  t_minute :: nat
  t_second :: nat
  t_nsec :: nat

definition zero_time :: time where
  "zero_time = \<lparr>t_year = 1, t_month = 1, t_day = 1, t_hour = 0, t_minute = 0,
                 t_second = 0, t_nsec = 0\<rparr>"

definition Equal :: "time \<Rightarrow> time \<Rightarrow> bool" where
  "Equal t u = (t = u)"

fun lex_less :: "nat list \<Rightarrow> nat list \<Rightarrow> bool" where
  "lex_less (x # xs) (y # ys) = (x < y \<or> (x = y \<and> lex_less xs ys))"
| "lex_less xs ys = False"

definition time_fields :: "time \<Rightarrow> nat list" where
  "time_fields t = [t_year t, t_month t, t_day t, t_hour t, t_minute t, t_second t, t_nsec t]"

definition After :: "time \<Rightarrow> time \<Rightarrow> bool" where
  "After t u = lex_less (time_fields u) (time_fields t)"

definition shortMonthNames :: "string list" where
  "shortMonthNames = [''Jan'', ''Feb'', ''Mar'', ''Apr'', ''May'', ''Jun'',
                      ''Jul'', ''Aug'', ''Sep'', ''Oct'', ''Nov'', ''Dec'']"

definition two_digits :: "nat \<Rightarrow> string" where
  "two_digits n = [''0123456789'' ! (n div 10 mod 10), ''0123456789'' ! (n mod 10)]"

definition Format_RFC822 :: "time \<Rightarrow> string" where
  "Format_RFC822 t =
     two_digits (t_day t) @ '' '' @ shortMonthNames ! (t_month t - 1) @ '' '' @
     two_digits (t_year t mod 100) @ '' '' @
     two_digits (t_hour t) @ '':'' @ two_digits (t_minute t) @ '' UTC''"

definition digit_val :: "char \<Rightarrow> nat option" where
  "digit_val c = map_of (zip ''0123456789'' [0, 1, 2, 3, 4, 5, 6, 7, 8, 9]) c"

definition getnum2 :: "char \<Rightarrow> char \<Rightarrow> nat option" where
  "getnum2 a b =
     (case digit_val a of
        None \<Rightarrow> None
      | Some x \<Rightarrow> (case digit_val b of None \<Rightarrow> None | Some y \<Rightarrow> Some (10 * x + y)))"

definition lookup_month :: "string \<Rightarrow> nat option" where
  "lookup_month s = map_of (zip shortMonthNames [1, 2, 3, 4, 5, 6, 7, 8, 9, 10, 11, 12]) s"

definition isLeap :: "nat \<Rightarrow> bool" where
  "isLeap y = (y mod 4 = 0 \<and> (y mod 100 \<noteq> 0 \<or> y mod 400 = 0))"

definition daysIn :: "nat \<Rightarrow> nat \<Rightarrow> nat" where
  "daysIn m y =
     (if m = 2 then (if isLeap y then 29 else 28)
      else if m = 4 \<or> m = 6 \<or> m = 9 \<or> m = 11 then 30 else 31)"

fun Parse_RFC822 :: "string \<Rightarrow> time option" where
  "Parse_RFC822 [d1, d2, s1, m1, m2, m3, s2, y1, y2, s3, h1, h2, c, n1, n2, s4, z1, z2, z3] =
     (if s1 = CHR '' '' \<and> s2 = CHR '' '' \<and> s3 = CHR '' '' \<and> s4 = CHR '' '' \<and> c = CHR '':''
         \<and> [z1, z2, z3] = ''UTC''
      then
        (case getnum2 d1 d2 of None \<Rightarrow> None | Some day \<Rightarrow>
         case lookup_month [m1, m2, m3] of None \<Rightarrow> None | Some month \<Rightarrow>
         case getnum2 y1 y2 of None \<Rightarrow> None | Some yy \<Rightarrow>
         case getnum2 h1 h2 of None \<Rightarrow> None | Some hour \<Rightarrow>
         case getnum2 n1 n2 of None \<Rightarrow> None | Some minute \<Rightarrow>
           (let year = (if yy \<ge> 69 then yy + 1900 else yy + 2000) in
            if 24 \<le> hour \<or> 60 \<le> minute \<or> day < 1 \<or> daysIn month year < day then None
            else Some \<lparr>t_year = year, t_month = month, t_day = day, t_hour = hour,
                       t_minute = minute, t_second = 0, t_nsec = 0\<rparr>))
      else None)"
| "Parse_RFC822 s = None"

subsection \<open>The file system and the container engine\<close>

text \<open>
  A directory tree: regular files with their modification time and content, directories
  with their entries in the lexical order in which \<open>filepath.WalkDir\<close> visits them, and
  entries that cannot be read, on which the walk reports an error.
\<close>

datatype node =
    File string time string
  | Dir string "node list"
  | Unreadable string

type_synonym labels = "string \<rightharpoonup> string"

text \<open>
  The world that \<open>Build\<close> runs in: the directory trees by path; whether a Docker client can
  be created; whether the engine answers \<open>ImageList\<close>, and with the labels of which images
  for a reference; whether the engine carries out an image build; and the number of
  \<open>ImageBuild\<close> calls issued so far.
\<close>

record world =
  fs :: "string \<rightharpoonup> node"
  client_ok :: bool
  engine_reachable :: bool
  images :: "string \<Rightarrow> labels list"
  image_build_ok :: bool
  build_calls :: nat

datatype reason =
    LabelNotFound string
  | InvalidTime string
  | InvalidManifestLabel

datatype build_error =
    DockerClientError
  | ReadLabelsError
  | ErrNoChecktypeImage string reason
  | WalkError
  | EmptyDirError
  | LastModifiedError build_error
  | GoBuildError
  | NoManifestFile
  | ReadFileError
  | InvalidManifestFile
  | TarError
  | BuildImageError
  | UnmarshalOptionsError
  | AssetTypesError

datatype Runtime =
    RuntimeDockerd
  | RuntimeDockerdDockerDesktop
  | RuntimeDockerdRancherDesktop
  | RuntimeDockerdPodmanDesktop

text \<open>
  The manifest type, its parser and its methods are declared in a file of the package that
  is not at hand, and \<open>go build\<close> is an external command; the model takes them as
  parameters. \<open>goBuild\<close> maps the directory to what it is after the command has run
  (the compiler writes the binary into it), or to \<open>None\<close> when the command fails.
\<close>

record 'm toolchain =
  ManifestFile :: string
  ParseManifest :: "string \<Rightarrow> 'm option"
  UnmarshalOptions :: "'m \<Rightarrow> options option"
  AssetTypeStrings :: "'m \<Rightarrow> string list option"
  ManifestDescription :: "'m \<Rightarrow> string"
  ManifestTimeout :: "'m \<Rightarrow> int"
  ManifestRequiredVars :: "'m \<Rightarrow> string list"
  goBuild :: "node \<Rightarrow> node option"

record 'm Image =
  img_Name :: string
  img_ChecktypeName :: string
  img_Manifest :: 'm
  img_LastModified :: time

definition lastModifiedTimeLabel :: string where
  "lastModifiedTimeLabel = ''com.adevinta.vulcan.last_modified_file''"

definition checktypeNameLabel :: string where
  "checktypeNameLabel = ''com.adevinta.vulcan.name''"

definition checktypeManifest :: string where
  "checktypeManifest = ''com.adevinta.vulcan.manifest''"

subsection \<open>Inspecting and building images\<close>

text \<open>\<open>ImageLabels\<close>: the labels of every image that the engine lists for the reference,
  merged into one map, a later image overriding an earlier one.\<close>

definition ImageLabels :: "world \<Rightarrow> string \<Rightarrow> build_error + labels" where
  "ImageLabels w img =
     (if \<not> engine_reachable w then Inl ReadLabelsError
      else Inr (fold (\<lambda>info acc. acc ++ info) (images w img) Map.empty))"

definition InspectImage :: "'m toolchain \<Rightarrow> world \<Rightarrow> string \<Rightarrow> build_error + 'm Image" where
  "InspectImage tc w img =
     (case ImageLabels w img of
        Inl e \<Rightarrow> Inl ReadLabelsError
      | Inr labels \<Rightarrow>
     (case labels lastModifiedTimeLabel of
        None \<Rightarrow> Inl (ErrNoChecktypeImage img (LabelNotFound lastModifiedTimeLabel))
      | Some lastModified \<Rightarrow>
     (case Parse_RFC822 lastModified of
        None \<Rightarrow> Inl (ErrNoChecktypeImage img (InvalidTime lastModified))
      | Some lastModifiedTime \<Rightarrow>
     (case labels checktypeNameLabel of
        None \<Rightarrow> Inl (ErrNoChecktypeImage img (LabelNotFound checktypeNameLabel))
      | Some ctName \<Rightarrow>
     (case labels checktypeManifest of
        None \<Rightarrow> Inl (ErrNoChecktypeImage img (LabelNotFound checktypeManifest))
      | Some m \<Rightarrow>
     (case ParseManifest tc m of
        None \<Rightarrow> Inl (ErrNoChecktypeImage img InvalidManifestLabel)
      | Some manifest \<Rightarrow>
          Inr \<lparr>img_Name = img, img_ChecktypeName = ctName, img_Manifest = manifest,
               img_LastModified = lastModifiedTime\<rparr>))))))"

text \<open>\<open>lastModified\<close>: the walk keeps the newest modification time of the regular files,
  does not descend into a directory named \<open>.git\<close>, and stops at the first error.\<close>

fun walk :: "node \<Rightarrow> time option \<Rightarrow> build_error + time option"
  and walk_entries :: "node list \<Rightarrow> time option \<Rightarrow> build_error + time option" where
  "walk (File name modtime content) latest =
     (case latest of
        None \<Rightarrow> Inr (Some modtime)
      | Some l \<Rightarrow> if After modtime l then Inr (Some modtime) else Inr latest)"
| "walk (Dir name entries) latest =
     (if name = ''.git'' then Inr latest else walk_entries entries latest)"
| "walk (Unreadable name) latest = Inl WalkError"
| "walk_entries [] latest = Inr latest"
| "walk_entries (e # es) latest =
     (case walk e latest of Inl err \<Rightarrow> Inl err | Inr latest' \<Rightarrow> walk_entries es latest')"

definition lastModified :: "world \<Rightarrow> string \<Rightarrow> build_error + time" where
  "lastModified w dir =
     (case fs w dir of
        None \<Rightarrow> Inl WalkError
      | Some root \<Rightarrow>
          (case walk root None of
             Inl err \<Rightarrow> Inl WalkError
           | Inr None \<Rightarrow> Inl EmptyDirError
           | Inr (Some latest) \<Rightarrow> Inr latest))"

text \<open>\<open>path.Base\<close>: trailing slashes are stripped, the last element is returned; the empty
  path gives ".", a path of slashes gives "/".\<close>

definition path_Base :: "string \<Rightarrow> string" where
  "path_Base p =
     (if p = '''' then ''.''
      else let stripped = rev (dropWhile (\<lambda>c. c = CHR ''/'') (rev p));
               element = rev (takeWhile (\<lambda>c. c \<noteq> CHR ''/'') (rev stripped))
           in if element = '''' then ''/'' else element)"

definition Code_name :: "string \<Rightarrow> string" where
  "Code_name c = path_Base c"

definition imageName :: "string \<Rightarrow> string" where
  "imageName c = Code_name c @ ''-'' @ ''local''"

definition isModified :: "'m toolchain \<Rightarrow> world \<Rightarrow> string \<Rightarrow> build_error + bool" where
  "isModified tc w c =
     (case InspectImage tc w (imageName c) of
        Inl (ErrNoChecktypeImage img r) \<Rightarrow> Inr True
      | Inl err \<Rightarrow> Inl err
      | Inr im \<Rightarrow>
          (case lastModified w c of
             Inl err \<Rightarrow> Inl (LastModifiedError err)
           | Inr dirTime \<Rightarrow> Inr (Equal dirTime (img_LastModified im))))"

definition goBuildDir :: "'m toolchain \<Rightarrow> world \<Rightarrow> string \<Rightarrow> build_error + world" where
  "goBuildDir tc w dir =
     (case fs w dir of
        None \<Rightarrow> Inl GoBuildError
      | Some root \<Rightarrow>
          (case goBuild tc root of
             None \<Rightarrow> Inl GoBuildError
           | Some root' \<Rightarrow> Inr (w\<lparr>fs := (fs w)(dir \<mapsto> root')\<rparr>)))"

fun node_name :: "node \<Rightarrow> string" where
  "node_name (File n modtime content) = n"
| "node_name (Dir n entries) = n"
| "node_name (Unreadable n) = n"

text \<open>\<open>os.ReadFile\<close> of the manifest in the root of the directory.\<close>

definition readManifest :: "'m toolchain \<Rightarrow> world \<Rightarrow> string \<Rightarrow> build_error + string" where
  "readManifest tc w dir =
     (case fs w dir of
        None \<Rightarrow> Inl NoManifestFile
      | Some (Dir n entries) \<Rightarrow>
          (case List.find (\<lambda>e. node_name e = ManifestFile tc) entries of
             None \<Rightarrow> Inl NoManifestFile
           | Some (File f modtime content) \<Rightarrow> Inr content
           | Some other \<Rightarrow> Inl ReadFileError)
      | Some other \<Rightarrow> Inl ReadFileError)"

fun readable :: "node \<Rightarrow> bool" where
  "readable (File n modtime content) = True"
| "readable (Dir n entries) = list_all readable entries"
| "readable (Unreadable n) = False"

text \<open>\<open>buildTarFromDir\<close> archives the whole tree and fails on what it cannot read.\<close>

definition buildTarFromDir :: "world \<Rightarrow> string \<Rightarrow> build_error + node" where
  "buildTarFromDir w dirPath =
     (case fs w dirPath of
        Some (Dir n entries) \<Rightarrow>
          (if list_all readable entries then Inr (Dir n entries) else Inl TarError)
      | other \<Rightarrow> Inl TarError)"

text \<open>\<open>BuildImage\<close> issues one build call to the engine. A build that the engine carries
  out leaves the tag on an image with the given labels.\<close>

definition BuildImage :: "world \<Rightarrow> node \<Rightarrow> string \<Rightarrow> labels \<Rightarrow> (build_error + unit) \<times> world" where
  "BuildImage w tarFile tag labels =
     (let w' = w\<lparr>build_calls := Suc (build_calls w)\<rparr> in
      if image_build_ok w then (Inr (), w'\<lparr>images := (images w)(tag := [labels])\<rparr>)
      else (Inl BuildImageError, w'))"

definition NewImage ::
  "'m toolchain \<Rightarrow> world \<Rightarrow> string \<Rightarrow> string \<Rightarrow> string \<Rightarrow> (build_error + 'm Image) \<times> world" where
  "NewImage tc w nm dir checktype =
     (case readManifest tc w dir of
        Inl e \<Rightarrow> (Inl e, w)
      | Inr manifestContent \<Rightarrow>
     (case ParseManifest tc manifestContent of
        None \<Rightarrow> (Inl InvalidManifestFile, w)
      | Some manifest \<Rightarrow>
     (case buildTarFromDir w dir of
        Inl e \<Rightarrow> (Inl e, w)
      | Inr tarFile \<Rightarrow>
     (case lastModified w dir of
        Inl e \<Rightarrow> (Inl e, w)
      | Inr modif \<Rightarrow>
          (let t = Format_RFC822 modif;
               labels = [checktypeNameLabel \<mapsto> checktype,
                         checktypeManifest \<mapsto> manifestContent,
                         lastModifiedTimeLabel \<mapsto> t]
           in case BuildImage w tarFile nm labels of
                (Inl e, w') \<Rightarrow> (Inl BuildImageError, w')
              | (Inr u, w') \<Rightarrow>
                  (Inr \<lparr>img_Name = nm, img_ChecktypeName = checktype,
                        img_Manifest = manifest, img_LastModified = zero_time\<rparr>, w'))))))"

text \<open>The method \<open>Checktype\<close> of \<open>Image\<close>.\<close>

definition Checktype_of :: "'m toolchain \<Rightarrow> 'm Image \<Rightarrow> build_error + Checktype" where
  "Checktype_of tc i =
     (case UnmarshalOptions tc (img_Manifest i) of
        None \<Rightarrow> Inl UnmarshalOptionsError
      | Some opts \<Rightarrow>
          (case AssetTypeStrings tc (img_Manifest i) of
             None \<Rightarrow> Inl AssetTypesError
           | Some assetTypes \<Rightarrow>
               Inr \<lparr>ct_Name = img_ChecktypeName i,
                    ct_Description = ManifestDescription tc (img_Manifest i),
                    ct_Image = img_Name i,
                    ct_Timeout = ManifestTimeout tc (img_Manifest i),
                    ct_Options = opts,
                    ct_RequiredVars = map Str (ManifestRequiredVars tc (img_Manifest i)),
                    ct_Assets = assetTypes\<rparr>))"

text \<open>The two halves of \<open>Build\<close>: reusing the image (the branch \<open>!modified\<close>) and
  rebuilding (compile, then \<open>NewImage\<close>).\<close>

definition reuse :: "'m toolchain \<Rightarrow> world \<Rightarrow> string \<Rightarrow> (build_error + Checktype) \<times> world" where
  "reuse tc w c =
     (case InspectImage tc w (imageName c) of
        Inl e \<Rightarrow> (Inl e, w)
      | Inr im \<Rightarrow> (Checktype_of tc im, w))"

definition rebuild :: "'m toolchain \<Rightarrow> world \<Rightarrow> string \<Rightarrow> (build_error + Checktype) \<times> world" where
  "rebuild tc w c =
     (case goBuildDir tc w c of
        Inl e \<Rightarrow> (Inl e, w)
      | Inr w1 \<Rightarrow>
          (case NewImage tc w1 (imageName c) c (Code_name c) of
             (Inl e, w2) \<Rightarrow> (Inl e, w2)
           | (Inr im, w2) \<Rightarrow> (Checktype_of tc im, w2)))"

definition Build ::
  "'m toolchain \<Rightarrow> Runtime \<Rightarrow> world \<Rightarrow> string \<Rightarrow> (build_error + Checktype) \<times> world" where
  "Build tc rt w c =
     (if \<not> client_ok w then (Inl DockerClientError, w)
      else case isModified tc w c of
             Inl e \<Rightarrow> (Inl e, w)
           | Inr modified \<Rightarrow> if \<not> modified then reuse tc w c else rebuild tc w c)"

subsection \<open>Example values\<close>

text \<open>An instance: a remote catalog with two checktypes, then a local directory whose built
  checktype has the name of the first one. The state of the world counts the builds.\<close>

definition example_checktype :: "string \<Rightarrow> string \<Rightarrow> string list \<Rightarrow> Checktype" where
  "example_checktype name img assets =
     \<lparr>ct_Name = name, ct_Description = '''', ct_Image = img, ct_Timeout = 0,
      ct_Options = [], ct_RequiredVars = [], ct_Assets = assets\<rparr>"

definition example_env :: "(nat, unit) env" where
  "example_env =
     \<lparr>parseURL = (\<lambda>u. if u = ''https://example.com/checktypes.json''
                        then Some \<lparr>Scheme = ''https'', Path = ''/checktypes.json''\<rparr>
                        else Some \<lparr>Scheme = '''', Path = u\<rparr>),
      stat = (\<lambda>p. if p = ''checks/checktype1'' then IsDirectory else NotExist),
      get = (\<lambda>u. if Scheme u = ''https'' then Some ''payload'' else None),
      unmarshal = (\<lambda>d. if d = ''payload''
                         then Some [example_checktype ''checktype1'' ''remote/one:tag'' [''DomainName''],
                                    example_checktype ''checktype2'' ''remote/two:tag'' [''Hostname'']]
                         else None),
      build = (\<lambda>p w. (Inr (example_checktype ''checktype1'' ''checktype1-local'' [''DomainName'']),
                        Suc w))\<rparr>"

text \<open>The asset types of the tests, a target and a supply of distinct identifiers.\<close>

definition example_enum :: "string list" where
  "example_enum = [''DomainName'', ''Hostname'', ''WebAddress'', ''GitRepository'']"

definition example_target :: "string \<Rightarrow> string \<Rightarrow> options \<Rightarrow> Target" where
  "example_target ident at opts = \<lparr>tg_Identifier = ident, tg_AssetType = at, tg_Options = opts\<rparr>"

definition example_ids :: "nat \<Rightarrow> string" where
  "example_ids i = ''id'' @ replicate i (CHR ''+'')"

text \<open>A checktype directory \<open>checks/mycheck\<close> whose newest source file has the given
  modification time, an engine that holds the image \<open>mycheck-local\<close> with the given labels
  (or no image), and a toolchain whose \<open>go build\<close> writes the binary into the directory.\<close>

definition example_time :: "nat \<Rightarrow> nat \<Rightarrow> nat \<Rightarrow> time" where
  "example_time h m s =
     \<lparr>t_year = 2023, t_month = 9, t_day = 7, t_hour = h, t_minute = m, t_second = s, t_nsec = 0\<rparr>"

definition example_dir :: "time \<Rightarrow> node" where
  "example_dir t =
     Dir ''mycheck''
       [Dir ''.git'' [File ''HEAD'' (example_time 23 59 59) ''ref: refs/heads/main''],
        File ''main.go'' t ''package main'',
        File ''manifest.toml'' (example_time 16 30 12) ''Description: my check'']"

definition example_labels :: "string \<Rightarrow> labels" where
  "example_labels stamp =
     [checktypeNameLabel \<mapsto> ''mycheck'',
      checktypeManifest \<mapsto> ''Description: my check'',
      lastModifiedTimeLabel \<mapsto> stamp]"

definition example_world :: "time \<Rightarrow> labels list \<Rightarrow> world" where
  "example_world t infos =
     \<lparr>fs = [''checks/mycheck'' \<mapsto> example_dir t],
      client_ok = True,
      engine_reachable = True,
      images = (\<lambda>r. if r = ''mycheck-local'' then infos else []),
      image_build_ok = True,
      build_calls = 0\<rparr>"

definition example_toolchain :: "string toolchain" where
  "example_toolchain =
     \<lparr>ManifestFile = ''manifest.toml'',
      ParseManifest = (\<lambda>s. if s = '''' then None else Some s),
      UnmarshalOptions = (\<lambda>m. Some []),
      AssetTypeStrings = (\<lambda>m. Some [''DomainName'']),
      ManifestDescription = (\<lambda>m. m),
      ManifestTimeout = (\<lambda>m. 0),
      ManifestRequiredVars = (\<lambda>m. []),
      goBuild = (\<lambda>n. case n of
                         Dir d entries \<Rightarrow>
                           Some (Dir d (entries @ [File ''mycheck'' (example_time 17 2 40) ''ELF'']))
                       | other \<Rightarrow> None)\<rparr>"

section \<open>Properties of the report store\<close>

lemma init_reports_contents:
  "init_reports rs h = (a, rs1, h1) \<Longrightarrow> contents rs1 h1 = contents rs h"
  by (auto simp: init_reports_def make_map_def contents_def map_at_def
      split: option.splits)

lemma UploadCheckData_store_ok:
  assumes "store_ok rs h"
    and "UploadCheckData decode checkID kind startedAt content rs h = (res, rs', h')"
  shows "store_ok rs' h'"
  using assms
  by (auto simp: UploadCheckData_def init_reports_def make_map_def store_ok_def Let_def
      split: option.splits if_splits)

text \<open>
  Claim C8. An upload that does not store (kind "reports" whose content fails to decode,
  kind "logs", or any other kind) returns the decode error, no error, and the unknown-kind
  error respectively, and the reports the store holds are the same after the call.
\<close>

theorem UploadCheckData_no_store:
  assumes "\<not> (kind = ''reports'' \<and> decode content \<noteq> None)"
    and "UploadCheckData decode checkID kind startedAt content rs h = (res, rs', h')"
  shows "snd res =
           (if kind = ''reports'' then Some DecodeContent
            else if kind = ''logs'' then None
            else Some (UnknownDataKind kind))
         \<and> contents rs' h' = contents rs h"
proof -
  obtain a rs1 h1 where i: "init_reports rs h = (a, rs1, h1)"
    by (cases "init_reports rs h") auto
  have c: "contents rs1 h1 = contents rs h"
    using i by (rule init_reports_contents)
  from assms i have "rs' = rs1 \<and> h' = h1"
    by (auto simp: UploadCheckData_def split: if_splits option.splits)
  moreover from assms i have "snd res =
           (if kind = ''reports'' then Some DecodeContent
            else if kind = ''logs'' then None
            else Some (UnknownDataKind kind))"
    by (auto simp: UploadCheckData_def split: if_splits option.splits)
  ultimately show ?thesis using c by simp
qed

theorem UploadCheckData_no_store_witness:
  "(\<exists>res rs' h'.
      UploadCheckData (\<lambda>s. None) ''c1'' ''reports'' 0 ''not json'' \<lparr>reports = Some 0\<rparr>
        [[''c0'' \<mapsto> \<lparr>rep_ChecktypeName = ''ct'', rep_Target = ''example.com'',
                     rep_StartTime = ''t0'', rep_Status = ''FINISHED''\<rparr>]] = (res, rs', h')
      \<and> snd res = Some DecodeContent
      \<and> contents rs' h' = contents \<lparr>reports = Some 0\<rparr>
        [[''c0'' \<mapsto> \<lparr>rep_ChecktypeName = ''ct'', rep_Target = ''example.com'',
                     rep_StartTime = ''t0'', rep_Status = ''FINISHED''\<rparr>]])
   \<and> (\<exists>res rs' h'.
      UploadCheckData (\<lambda>s. None) ''c1'' ''logs'' 0 ''a log line'' \<lparr>reports = None\<rparr> [] =
        (res, rs', h')
      \<and> snd res = None \<and> contents rs' h' = contents \<lparr>reports = None\<rparr> [])
   \<and> (\<exists>res rs' h'.
      UploadCheckData (\<lambda>s. None) ''c1'' ''metrics'' 0 ''x'' \<lparr>reports = None\<rparr> [] =
        (res, rs', h')
      \<and> snd res = Some (UnknownDataKind ''metrics'')
      \<and> contents rs' h' = contents \<lparr>reports = None\<rparr> [])"
proof (intro conjI)
  let ?d = "\<lambda>s::string. None :: report option"
  let ?rs = "\<lparr>reports = Some 0\<rparr>"
  let ?h = "[[''c0'' \<mapsto> \<lparr>rep_ChecktypeName = ''ct'', rep_Target = ''example.com'',
                     rep_StartTime = ''t0'', rep_Status = ''FINISHED''\<rparr>]]"
  have n: "\<not> (''reports'' = ''reports'' \<and> ?d ''not json'' \<noteq> None)" by simp
  obtain res rs' h' where
    u: "UploadCheckData ?d ''c1'' ''reports'' 0 ''not json'' ?rs ?h = (res, rs', h')"
    using prod_cases3 by blast
  from UploadCheckData_no_store [OF n u] u
  show "\<exists>res rs' h'.
      UploadCheckData ?d ''c1'' ''reports'' 0 ''not json'' ?rs ?h = (res, rs', h')
      \<and> snd res = Some DecodeContent \<and> contents rs' h' = contents ?rs ?h"
    by simp
next
  let ?d = "\<lambda>s::string. None :: report option"
  have n: "\<not> (''logs'' = ''reports'' \<and> ?d ''a log line'' \<noteq> None)" by simp
  obtain res rs' h' where
    u: "UploadCheckData ?d ''c1'' ''logs'' 0 ''a log line'' \<lparr>reports = None\<rparr> [] = (res, rs', h')"
    using prod_cases3 by blast
  from UploadCheckData_no_store [OF n u] u
  show "\<exists>res rs' h'.
      UploadCheckData ?d ''c1'' ''logs'' 0 ''a log line'' \<lparr>reports = None\<rparr> [] = (res, rs', h')
      \<and> snd res = None \<and> contents rs' h' = contents \<lparr>reports = None\<rparr> []"
    by simp
next
  let ?d = "\<lambda>s::string. None :: report option"
  have n: "\<not> (''metrics'' = ''reports'' \<and> ?d ''x'' \<noteq> None)" by simp
  obtain res rs' h' where
    u: "UploadCheckData ?d ''c1'' ''metrics'' 0 ''x'' \<lparr>reports = None\<rparr> [] = (res, rs', h')"
    using prod_cases3 by blast
  from UploadCheckData_no_store [OF n u] u
  show "\<exists>res rs' h'.
      UploadCheckData ?d ''c1'' ''metrics'' 0 ''x'' \<lparr>reports = None\<rparr> [] = (res, rs', h')
      \<and> snd res = Some (UnknownDataKind ''metrics'')
      \<and> contents rs' h' = contents \<lparr>reports = None\<rparr> []"
    by simp
qed

text \<open>
  Claim C10. Whatever the kind, the content and the outcome, the link that
  \<open>UploadCheckData\<close> returns is the empty string.
\<close>

theorem UploadCheckData_link_empty:
  "fst (fst (UploadCheckData decode checkID kind startedAt content rs h)) = ''''"
  by (simp add: UploadCheckData_def Let_def split: prod.splits option.splits)





section \<open>Properties of the catalog\<close>

lemma find_snoc:
  "List.find P (xs @ [x]) = (case List.find P xs of Some y \<Rightarrow> Some y | None \<Rightarrow> if P x then Some x else None)"
  by (induction xs) auto

lemma insert_all_lookup:
  "map_of (insert_all cts checktypes) n =
     (case List.find (\<lambda>ct. ct_Name ct = n) (rev cts) of
        Some ct \<Rightarrow> Some ct
      | None \<Rightarrow> map_of checktypes n)"
proof (induction cts arbitrary: checktypes)
  case Nil
  show ?case by (simp add: insert_all_def)
next
  case (Cons c cts)
  have "insert_all (c # cts) checktypes = insert_all cts (AList.update (ct_Name c) c checktypes)"
    by (simp add: insert_all_def)
  then show ?case
    using Cons.IH [of "AList.update (ct_Name c) c checktypes"]
    by (auto simp: find_snoc update_conv' split: option.splits)
qed

lemma insert_all_append:
  "insert_all (xs @ ys) checktypes = insert_all ys (insert_all xs checktypes)"
  by (simp add: insert_all_def)

lemma catalog_loop_produced:
  "catalog_loop env urls checktypes w = (Inr cat, w') \<Longrightarrow>
   cat = insert_all (produced env urls w) checktypes"
proof (induction urls arbitrary: checktypes w)
  case Nil
  then show ?case by (simp add: insert_all_def)
next
  case (Cons u us)
  obtain r w1 where r: "resolve env u w = (r, w1)" by (cases "resolve env u w") auto
  show ?case
  proof (cases r)
    case (Inl e)
    with Cons.prems r show ?thesis by simp
  next
    case (Inr cts)
    with Cons.prems r have "catalog_loop env us (insert_all cts checktypes) w1 = (Inr cat, w')"
      by simp
    from Cons.IH [OF this] r Inr show ?thesis by (simp add: insert_all_append)
  qed
qed

lemma set_update_subset: "set (AList.update k v al) \<subseteq> insert (k, v) (set al)"
  by (induction al) auto

lemma update_catalog_ok:
  assumes "catalog_ok cat"
  shows "catalog_ok (AList.update (ct_Name ct) ct cat)"
proof -
  have "ct_Name c = n" if "(n, c) \<in> set (AList.update (ct_Name ct) ct cat)" for n c
  proof -
    from that set_update_subset have "(n, c) = (ct_Name ct, ct) \<or> (n, c) \<in> set cat" by fast
    with assms show ?thesis by (auto simp: catalog_ok_def list_all_iff)
  qed
  with assms show ?thesis
    by (auto simp: catalog_ok_def distinct_update list_all_iff)
qed

lemma insert_all_catalog_ok: "catalog_ok cat \<Longrightarrow> catalog_ok (insert_all cts cat)"
  unfolding insert_all_def by (induction cts arbitrary: cat) (simp_all add: update_catalog_ok)

lemma catalog_ok_names: "catalog_ok cat \<Longrightarrow> distinct (map (\<lambda>(n, ct). ct_Name ct) cat)"
proof -
  assume ok: "catalog_ok cat"
  then have eq: "map (\<lambda>(n, ct). ct_Name ct) cat = map fst cat"
    by (intro map_cong refl) (auto simp: catalog_ok_def list_all_iff)
  from ok have d: "distinct (map fst cat)" by (simp add: catalog_ok_def)
  show ?thesis unfolding eq by (rule d)
qed

lemma NewCatalog_catalog_ok:
  assumes "NewCatalog env urls w = (Inr cat, w')"
  shows "catalog_ok cat"
proof -
  from assms have "catalog_loop env urls [] w = (Inr cat, w')"
    by (auto simp: NewCatalog_def split: if_splits)
  then have "cat = insert_all (produced env urls w) []" by (rule catalog_loop_produced)
  moreover have "catalog_ok []" by (simp add: catalog_ok_def)
  ultimately show ?thesis by (simp add: insert_all_catalog_ok)
qed

text \<open>
  Claim C6. \<open>NewCatalog\<close> on the empty source list fails with the missing-catalog error.
  On a non-empty list that it resolves, the catalog is the result of inserting every
  produced descriptor, in the order of the sources, under its name; so the entry under a
  name is the last produced descriptor of that name.
\<close>

theorem NewCatalog_last_wins:
  "fst (NewCatalog env [] w) = Inl ErrMissingCatalog
   \<and> (urls \<noteq> [] \<and> NewCatalog env urls w = (Inr cat, w') \<longrightarrow>
        cat = insert_all (produced env urls w) []
        \<and> map_of cat n = List.find (\<lambda>ct. ct_Name ct = n) (rev (produced env urls w)))"
proof (intro conjI impI)
  show "fst (NewCatalog env [] w) = Inl ErrMissingCatalog"
    by (simp add: NewCatalog_def)
next
  assume a: "urls \<noteq> [] \<and> NewCatalog env urls w = (Inr cat, w')"
  then have "catalog_loop env urls [] w = (Inr cat, w')"
    by (auto simp: NewCatalog_def)
  then show c: "cat = insert_all (produced env urls w) []"
    by (rule catalog_loop_produced)
  show "map_of cat n = List.find (\<lambda>ct. ct_Name ct = n) (rev (produced env urls w))"
    unfolding c by (simp add: insert_all_lookup split: option.splits)
qed

theorem NewCatalog_last_wins_witness:
  "[''https://example.com/checktypes.json'', ''checks/checktype1''] \<noteq> []
   \<and> NewCatalog example_env [''https://example.com/checktypes.json'', ''checks/checktype1''] 0 =
       (Inr [(''checktype1'', example_checktype ''checktype1'' ''checktype1-local'' [''DomainName'']),
             (''checktype2'', example_checktype ''checktype2'' ''remote/two:tag'' [''Hostname''])], 1)
   \<and> List.find (\<lambda>ct. ct_Name ct = ''checktype1'')
        (rev (produced example_env
                [''https://example.com/checktypes.json'', ''checks/checktype1''] 0)) =
       Some (example_checktype ''checktype1'' ''checktype1-local'' [''DomainName''])"
proof -
  let ?urls = "[''https://example.com/checktypes.json'', ''checks/checktype1'']"
  let ?cat = "[(''checktype1'', example_checktype ''checktype1'' ''checktype1-local'' [''DomainName'']),
               (''checktype2'', example_checktype ''checktype2'' ''remote/two:tag'' [''Hostname''])]"
  have ne: "?urls \<noteq> []" by simp
  have run: "NewCatalog example_env ?urls 0 = (Inr ?cat, 1)"
    by (simp add: NewCatalog_def resolve_def isDir_def example_env_def insert_all_def
        example_checktype_def)
  from NewCatalog_last_wins [of example_env 0 ?urls ?cat 1 "''checktype1''"] ne run
  have "map_of ?cat ''checktype1'' =
        List.find (\<lambda>ct. ct_Name ct = ''checktype1'') (rev (produced example_env ?urls 0))"
    by blast
  then have "List.find (\<lambda>ct. ct_Name ct = ''checktype1'') (rev (produced example_env ?urls 0)) =
        Some (example_checktype ''checktype1'' ''checktype1-local'' [''DomainName''])"
    by simp
  with ne run show ?thesis by blast
qed

section \<open>Properties of check generation\<close>

lemma accepts_loop_iff: "accepts_loop as at \<longleftrightarrow> at \<in> set as"
  by (induction as) auto

lemma Accepts_iff: "Accepts ct at \<longleftrightarrow> at \<in> set (ct_Assets ct)"
  by (simp add: Accepts_def accepts_loop_iff)

lemma set_compatible_pairs:
  "(ct, t) \<in> set (compatible_pairs catalog targets) \<longleftrightarrow>
     (\<exists>n. (n, ct) \<in> set catalog) \<and> t \<in> set targets \<and> Accepts ct (tg_AssetType t)"
  by (auto simp: compatible_pairs_def)

lemma dedup_loop_subset: "set (dedup_loop seen ps) \<subseteq> set ps"
  by (induction ps arbitrary: seen) auto

lemma dedup_loop_keeps_key:
  "p \<in> set ps \<Longrightarrow> pair_key p \<notin> set seen \<Longrightarrow>
   \<exists>q \<in> set (dedup_loop seen ps). pair_key q = pair_key p"
proof (induction ps arbitrary: seen)
  case Nil
  then show ?case by simp
next
  case (Cons x xs)
  show ?case
  proof (cases "pair_key x \<in> set seen")
    case True
    with Cons.prems have "p \<in> set xs" by auto
    from Cons.IH [OF this Cons.prems(2)] True show ?thesis
      by simp
  next
    case False
    show ?thesis
    proof (cases "pair_key p = pair_key x")
      case True
      with False show ?thesis by auto
    next
      case ne: False
      with Cons.prems have "p \<in> set xs" and "pair_key p \<notin> set (pair_key x # seen)" by auto
      from Cons.IH [OF this] False show ?thesis
        by auto
    qed
  qed
qed

lemma set_checks:
  "c \<in> set (map (\<lambda>(i, p). new_check (ids i) p) (enumerate 0 ps)) \<longleftrightarrow>
     (\<exists>i < length ps. c = new_check (ids i) (ps ! i))"
proof
  assume "c \<in> set (map (\<lambda>(i, p). new_check (ids i) p) (enumerate 0 ps))"
  then obtain x where x: "x \<in> set (enumerate 0 ps)" and c: "c = (\<lambda>(i, p). new_check (ids i) p) x"
    by auto
  from x have "fst x < length ps" and "ps ! fst x = snd x"
    by (simp_all add: in_set_enumerate_eq)
  with c show "\<exists>i < length ps. c = new_check (ids i) (ps ! i)"
    by (auto simp: case_prod_beta)
next
  assume "\<exists>i < length ps. c = new_check (ids i) (ps ! i)"
  then obtain i where i: "i < length ps" and c: "c = new_check (ids i) (ps ! i)" by blast
  from i have "(i, ps ! i) \<in> set (enumerate 0 ps)"
    by (simp add: in_set_enumerate_eq)
  then have "(\<lambda>(i, p). new_check (ids i) p) (i, ps ! i)
      \<in> set (map (\<lambda>(i, p). new_check (ids i) p) (enumerate 0 ps))"
    unfolding set_map by (rule imageI)
  with c show "c \<in> set (map (\<lambda>(i, p). new_check (ids i) p) (enumerate 0 ps))" by simp
qed

lemma generateChecks_valid:
  "\<forall>t \<in> set targets. valid_target enum t \<Longrightarrow>
   generateChecks ids enum catalog targets =
     Inr (map (\<lambda>(i, p). new_check (ids i) p)
            (enumerate 0 (dedup_loop [] (compatible_pairs catalog targets))))"
proof -
  assume "\<forall>t \<in> set targets. valid_target enum t"
  then have "List.find (\<lambda>t. \<not> valid_target enum t) targets = None"
    by (simp add: find_None_iff)
  then show ?thesis by (simp add: generateChecks_def)
qed

lemma generateChecks_sound:
  assumes "generateChecks ids enum catalog targets = Inr cs" and "c \<in> set cs"
  shows "\<exists>i p. p \<in> set (compatible_pairs catalog targets) \<and> c = new_check (ids i) p"
proof -
  let ?ps = "dedup_loop [] (compatible_pairs catalog targets)"
  from assms(1) have "cs = map (\<lambda>(i, p). new_check (ids i) p) (enumerate 0 ?ps)"
    by (auto simp: generateChecks_def split: option.splits)
  with assms(2) set_checks [of c ids ?ps]
  obtain i where "i < length ?ps" and c: "c = new_check (ids i) (?ps ! i)"
    by blast
  then have "?ps ! i \<in> set ?ps" by simp
  with dedup_loop_subset have "?ps ! i \<in> set (compatible_pairs catalog targets)" by blast
  with c show ?thesis by blast
qed

lemma generateChecks_complete:
  assumes "generateChecks ids enum catalog targets = Inr cs"
    and "p \<in> set (compatible_pairs catalog targets)"
  shows "\<exists>c \<in> set cs. pair_key (chk_checktype c, chk_target c) = pair_key p"
proof -
  let ?ps = "dedup_loop [] (compatible_pairs catalog targets)"
  from assms(1) have cs: "cs = map (\<lambda>(i, p). new_check (ids i) p) (enumerate 0 ?ps)"
    by (auto simp: generateChecks_def split: option.splits)
  from dedup_loop_keeps_key [OF assms(2), of "[]"]
  obtain q where q: "q \<in> set ?ps" and k: "pair_key q = pair_key p" by auto
  from q obtain i where i: "i < length ?ps" and qi: "?ps ! i = q"
    by (auto simp: in_set_conv_nth)
  then have "new_check (ids i) q \<in> set cs" unfolding cs set_checks by blast
  moreover have "pair_key (chk_checktype (new_check (ids i) q), chk_target (new_check (ids i) q)) = pair_key q"
    by (simp add: new_check_def)
  ultimately show ?thesis using k by metis
qed

lemma catalog_names_unique:
  assumes "distinct (map (\<lambda>(n, ct). ct_Name ct) catalog)"
    and "(n, ct) \<in> set catalog" and "(n', ct') \<in> set catalog" and "ct_Name ct = ct_Name ct'"
  shows "ct = ct'"
proof -
  from assms(1) have "inj_on (\<lambda>(n, ct). ct_Name ct) (set catalog)"
    by (simp add: distinct_map)
  from inj_onD [OF this _ assms(2,3)] assms(4) show ?thesis by simp
qed

text \<open>
  Claim C4, amended. For a catalog whose checktypes have distinct names and a list of
  targets whose asset types are all valid, check generation succeeds, and it holds a check
  for a (checktype, target) pair of the inputs, up to the deduplication key of the target,
  iff the checktype accepts the target's asset type; every check comes from a compatible
  pair of the inputs; and with no compatible pair the result is the empty list.
\<close>

theorem generateChecks_compatibility:
  assumes "\<forall>t \<in> set targets. valid_target enum t"
    and "distinct (map (\<lambda>(n, ct). ct_Name ct) catalog)"
  shows "\<exists>cs. generateChecks ids enum catalog targets = Inr cs
     \<and> (\<forall>(n, ct) \<in> set catalog. \<forall>t \<in> set targets.
          (\<exists>c \<in> set cs. chk_checktype c = ct
              \<and> tg_Identifier (chk_target c) = tg_Identifier t
              \<and> tg_AssetType (chk_target c) = tg_AssetType t)
          \<longleftrightarrow> tg_AssetType t \<in> set (ct_Assets ct))
     \<and> (\<forall>c \<in> set cs. (\<exists>n. (n, chk_checktype c) \<in> set catalog) \<and> chk_target c \<in> set targets
          \<and> tg_AssetType (chk_target c) \<in> set (ct_Assets (chk_checktype c)))
     \<and> ((\<forall>(n, ct) \<in> set catalog. \<forall>t \<in> set targets. tg_AssetType t \<notin> set (ct_Assets ct))
          \<longrightarrow> cs = [])"
proof -
  obtain cs where gen: "generateChecks ids enum catalog targets = Inr cs"
    using generateChecks_valid [OF assms(1)] by blast
  have sound: "(\<exists>n. (n, chk_checktype c) \<in> set catalog) \<and> chk_target c \<in> set targets
          \<and> tg_AssetType (chk_target c) \<in> set (ct_Assets (chk_checktype c))"
    if "c \<in> set cs" for c
  proof -
    from generateChecks_sound [OF gen that] obtain i p
      where p: "p \<in> set (compatible_pairs catalog targets)" and c: "c = new_check (ids i) p"
      by blast
    obtain ct t where pt: "p = (ct, t)" by (cases p)
    from p pt have "(\<exists>n. (n, ct) \<in> set catalog) \<and> t \<in> set targets \<and> Accepts ct (tg_AssetType t)"
      by (simp add: set_compatible_pairs)
    with c pt show ?thesis by (simp add: new_check_def Accepts_iff)
  qed
  have iff: "(\<exists>c \<in> set cs. chk_checktype c = ct
              \<and> tg_Identifier (chk_target c) = tg_Identifier t
              \<and> tg_AssetType (chk_target c) = tg_AssetType t)
          \<longleftrightarrow> tg_AssetType t \<in> set (ct_Assets ct)"
    if n: "(n, ct) \<in> set catalog" and t: "t \<in> set targets" for n ct t
  proof
    assume "\<exists>c \<in> set cs. chk_checktype c = ct
              \<and> tg_Identifier (chk_target c) = tg_Identifier t
              \<and> tg_AssetType (chk_target c) = tg_AssetType t"
    then obtain c where "c \<in> set cs" "chk_checktype c = ct"
      "tg_AssetType (chk_target c) = tg_AssetType t" by blast
    with sound [of c] show "tg_AssetType t \<in> set (ct_Assets ct)" by simp
  next
    assume "tg_AssetType t \<in> set (ct_Assets ct)"
    with n t have "(ct, t) \<in> set (compatible_pairs catalog targets)"
      by (auto simp: set_compatible_pairs Accepts_iff)
    from generateChecks_complete [OF gen this]
    obtain c where c: "c \<in> set cs"
      and k: "pair_key (chk_checktype c, chk_target c) = pair_key (ct, t)" by blast
    from sound [OF c] obtain n' where "(n', chk_checktype c) \<in> set catalog" by blast
    from catalog_names_unique [OF assms(2) this n] k have "chk_checktype c = ct"
      by (simp add: pair_key_def)
    with c k show "\<exists>c \<in> set cs. chk_checktype c = ct
              \<and> tg_Identifier (chk_target c) = tg_Identifier t
              \<and> tg_AssetType (chk_target c) = tg_AssetType t"
      by (auto simp: pair_key_def)
  qed
  have empty: "cs = []"
    if none: "\<forall>(n, ct) \<in> set catalog. \<forall>t \<in> set targets. tg_AssetType t \<notin> set (ct_Assets ct)"
  proof (rule ccontr)
    assume "cs \<noteq> []"
    then obtain c where "c \<in> set cs" by (cases cs) auto
    from sound [OF this] none show False by blast
  qed
  from gen sound iff empty show ?thesis by blast
qed

theorem generateChecks_compatibility_witness:
  "\<exists>cs. generateChecks example_ids example_enum
          [(''checktype1'', example_checktype ''checktype1'' ''namespace/repository:tag'' [''DomainName'']),
           (''checktype2'', example_checktype ''checktype2'' ''namespace2/repository2:tag'' [''Hostname''])]
          [example_target ''example.com'' ''DomainName'' [],
           example_target ''example.com'' ''DomainName'' [],
           example_target ''https://github.com/adevinta/lava'' ''GitRepository'' []] = Inr cs
     \<and> (\<exists>c \<in> set cs.
           chk_checktype c = example_checktype ''checktype1'' ''namespace/repository:tag'' [''DomainName'']
           \<and> tg_Identifier (chk_target c) = ''example.com''
           \<and> tg_AssetType (chk_target c) = ''DomainName'')
     \<and> \<not> (\<exists>c \<in> set cs.
           chk_checktype c = example_checktype ''checktype2'' ''namespace2/repository2:tag'' [''Hostname'']
           \<and> tg_Identifier (chk_target c) = ''example.com''
           \<and> tg_AssetType (chk_target c) = ''DomainName'')"
proof -
  let ?ct1 = "example_checktype ''checktype1'' ''namespace/repository:tag'' [''DomainName'']"
  let ?ct2 = "example_checktype ''checktype2'' ''namespace2/repository2:tag'' [''Hostname'']"
  let ?cat = "[(''checktype1'', ?ct1), (''checktype2'', ?ct2)]"
  let ?t = "example_target ''example.com'' ''DomainName'' []"
  let ?ts = "[?t, ?t, example_target ''https://github.com/adevinta/lava'' ''GitRepository'' []]"
  have v: "\<forall>t \<in> set ?ts. valid_target example_enum t"
    by (simp add: valid_target_def example_enum_def example_target_def)
  have d: "distinct (map (\<lambda>(n, ct). ct_Name ct) ?cat)"
    by (simp add: example_checktype_def)
  from generateChecks_compatibility [OF v d, of example_ids]
  obtain cs where gen: "generateChecks example_ids example_enum ?cat ?ts = Inr cs"
    and iff: "\<forall>(n, ct) \<in> set ?cat. \<forall>t \<in> set ?ts.
          (\<exists>c \<in> set cs. chk_checktype c = ct
              \<and> tg_Identifier (chk_target c) = tg_Identifier t
              \<and> tg_AssetType (chk_target c) = tg_AssetType t)
          \<longleftrightarrow> tg_AssetType t \<in> set (ct_Assets ct)"
    by blast
  from iff have "(\<exists>c \<in> set cs. chk_checktype c = ?ct1
              \<and> tg_Identifier (chk_target c) = tg_Identifier ?t
              \<and> tg_AssetType (chk_target c) = tg_AssetType ?t)
          \<longleftrightarrow> tg_AssetType ?t \<in> set (ct_Assets ?ct1)"
    by simp
  then have one: "\<exists>c \<in> set cs. chk_checktype c = ?ct1
              \<and> tg_Identifier (chk_target c) = ''example.com''
              \<and> tg_AssetType (chk_target c) = ''DomainName''"
    by (simp add: example_target_def example_checktype_def)
  from iff have "(\<exists>c \<in> set cs. chk_checktype c = ?ct2
              \<and> tg_Identifier (chk_target c) = tg_Identifier ?t
              \<and> tg_AssetType (chk_target c) = tg_AssetType ?t)
          \<longleftrightarrow> tg_AssetType ?t \<in> set (ct_Assets ?ct2)"
    by simp
  then have two: "\<not> (\<exists>c \<in> set cs. chk_checktype c = ?ct2
              \<and> tg_Identifier (chk_target c) = ''example.com''
              \<and> tg_AssetType (chk_target c) = ''DomainName'')"
    by (simp add: example_target_def example_checktype_def)
  from gen one two show ?thesis by blast
qed

text \<open>
  The claim as written, for every list of targets, fails on the entry "invalid target asset
  type" of \<open>TestGenerateChecks\<close>: no pair is compatible, yet generation does not succeed
  with an empty result, it fails.
\<close>

theorem generateChecks_invalid_asset_type_counterexample:
  "\<not> Accepts (example_checktype ''checktype1'' ''namespace/repository:tag'' [''Hostname''])
        (tg_AssetType (example_target ''example.com'' ''InvalidAssetType'' []))
   \<and> generateChecks example_ids example_enum
        [(''checktype1'', example_checktype ''checktype1'' ''namespace/repository:tag'' [''Hostname''])]
        [example_target ''example.com'' ''InvalidAssetType'' []]
      = Inl (InvalidAssetType ''InvalidAssetType'')"
  by (simp add: generateChecks_def valid_target_def example_enum_def example_target_def
      example_checktype_def Accepts_def)




section \<open>Properties of job generation\<close>

lemma required_vars_error:
  "required_vars vs = Inl e \<Longrightarrow> \<exists>v. e = InvalidRequiredVarType v \<and> (\<forall>s. v \<noteq> Str s)"
  by (induction vs rule: required_vars.induct) (auto split: sum.splits)

lemma required_vars_fails:
  "v \<in> set vs \<Longrightarrow> \<forall>s. v \<noteq> Str s \<Longrightarrow> \<exists>e. required_vars vs = Inl e"
  by (induction vs rule: required_vars.induct) (auto split: sum.splits)

lemma jobs_loop_error:
  "jobs_loop marshal cs = Inl e \<Longrightarrow> \<exists>v. e = InvalidRequiredVarType v \<and> (\<forall>s. v \<noteq> Str s)"
  by (induction cs) (auto split: sum.splits dest: required_vars_error)

lemma jobs_loop_fails:
  "c \<in> set cs \<Longrightarrow> required_vars (ct_RequiredVars (chk_checktype c)) = Inl e0 \<Longrightarrow>
   \<exists>e. jobs_loop marshal cs = Inl e"
  by (induction cs) (auto split: sum.splits)

text \<open>
  Claim C7, amended. For a catalog with distinct checktype names that holds a checktype
  with a required variable that is not a string, and a list of targets one of which the
  checktype accepts, job generation returns an error and no job. The error is the
  type-validation error when every target has a valid asset type; otherwise it is the
  error of check generation.
\<close>

theorem generateJobs_invalid_required_vars:
  assumes "(n, ct) \<in> set catalog"
    and "distinct (map (\<lambda>(n, ct). ct_Name ct) catalog)"
    and "v \<in> set (ct_RequiredVars ct)" and "\<forall>s. v \<noteq> Str s"
    and "t \<in> set targets" and "Accepts ct (tg_AssetType t)"
  shows "\<exists>e. generateJobs marshal ids enum catalog targets = Inl e
     \<and> (if \<forall>t \<in> set targets. valid_target enum t
         then \<exists>bad. e = InvalidRequiredVarType bad \<and> (\<forall>s. bad \<noteq> Str s)
         else \<exists>at. e = GenerateChecks (InvalidAssetType at))"
proof (cases "\<forall>t \<in> set targets. valid_target enum t")
  case True
  from generateChecks_valid [OF True] obtain cs
    where gen: "generateChecks ids enum catalog targets = Inr cs" by blast
  from assms(1,5,6) have "(ct, t) \<in> set (compatible_pairs catalog targets)"
    by (auto simp: set_compatible_pairs)
  from generateChecks_complete [OF gen this] obtain c
    where c: "c \<in> set cs" and k: "pair_key (chk_checktype c, chk_target c) = pair_key (ct, t)"
    by blast
  from generateChecks_sound [OF gen c] obtain n' where "(n', chk_checktype c) \<in> set catalog"
    by (auto simp: set_compatible_pairs new_check_def)
  from catalog_names_unique [OF assms(2) this assms(1)] k have "chk_checktype c = ct"
    by (simp add: pair_key_def)
  with required_vars_fails [OF assms(3,4)] obtain e0
    where "required_vars (ct_RequiredVars (chk_checktype c)) = Inl e0" by auto
  from jobs_loop_fails [OF c this] obtain e where e: "jobs_loop marshal cs = Inl e" by blast
  from jobs_loop_error [OF e] e gen True show ?thesis
    by (simp add: generateJobs_def)
next
  case False
  then have "List.find (\<lambda>t. \<not> valid_target enum t) targets \<noteq> None"
    by (auto simp: find_None_iff)
  then obtain t' where "List.find (\<lambda>t. \<not> valid_target enum t) targets = Some t'" by auto
  with False show ?thesis
    by (simp add: generateJobs_def generateChecks_def)
qed

theorem generateJobs_invalid_required_vars_witness:
  "generateJobs (\<lambda>opts. ''{}'') example_ids example_enum
     [(''checktype1'',
       (example_checktype ''checktype1'' ''namespace/repository:tag'' [''DomainName''])
         \<lparr>ct_RequiredVars := [Num 1, Num 2]\<rparr>)]
     [example_target ''example.com'' ''DomainName'' []]
   = Inl (InvalidRequiredVarType (Num 1))"
proof -
  let ?ct = "(example_checktype ''checktype1'' ''namespace/repository:tag'' [''DomainName''])
         \<lparr>ct_RequiredVars := [Num 1, Num 2]\<rparr>"
  let ?t = "example_target ''example.com'' ''DomainName'' []"
  have a1: "(''checktype1'', ?ct) \<in> set [(''checktype1'', ?ct)]" by simp
  have a2: "distinct (map (\<lambda>(n, ct). ct_Name ct) [(''checktype1'', ?ct)])" by simp
  have a3: "Num 1 \<in> set (ct_RequiredVars ?ct)" by (simp add: example_checktype_def)
  have a4: "\<forall>s. Num 1 \<noteq> Str s" by simp
  have a5: "?t \<in> set [?t]" by simp
  have a6: "Accepts ?ct (tg_AssetType ?t)"
    by (simp add: Accepts_def example_checktype_def example_target_def)
  have v: "\<forall>t \<in> set [?t]. valid_target example_enum t"
    by (simp add: valid_target_def example_enum_def example_target_def)
  from generateJobs_invalid_required_vars [OF a1 a2 a3 a4 a5 a6,
      of "\<lambda>opts. ''{}''" example_ids example_enum] v
  obtain bad where "generateJobs (\<lambda>opts. ''{}'') example_ids example_enum
      [(''checktype1'', ?ct)] [?t] = Inl (InvalidRequiredVarType bad)"
    by auto
  moreover have "generateJobs (\<lambda>opts. ''{}'') example_ids example_enum
      [(''checktype1'', ?ct)] [?t] = Inl (InvalidRequiredVarType (Num 1))"
    by (simp add: generateJobs_def generateChecks_def valid_target_def example_enum_def
        example_target_def example_checktype_def Accepts_def compatible_pairs_def pair_key_def
        enumerate_eq_zip new_check_def)
  ultimately show ?thesis by simp
qed

text \<open>
  The claim as written promises the type-validation error for every compatible target.
  When the accepted asset type is not one of the enumeration, check generation has
  already failed, and job generation returns that error.
\<close>

theorem generateJobs_error_kind_counterexample:
  "Accepts ((example_checktype ''checktype1'' ''namespace/repository:tag'' [''Bogus''])
              \<lparr>ct_RequiredVars := [Num 1, Num 2]\<rparr>)
          (tg_AssetType (example_target ''example.com'' ''Bogus'' []))
   \<and> generateJobs (\<lambda>opts. ''{}'') example_ids example_enum
        [(''checktype1'',
          (example_checktype ''checktype1'' ''namespace/repository:tag'' [''Bogus''])
            \<lparr>ct_RequiredVars := [Num 1, Num 2]\<rparr>)]
        [example_target ''example.com'' ''Bogus'' []]
      = Inl (GenerateChecks (InvalidAssetType ''Bogus''))"
  by (simp add: generateJobs_def generateChecks_def valid_target_def example_enum_def
      example_target_def example_checktype_def Accepts_def)

section \<open>Properties of the build cache\<close>

lemmas stamp_defs =
  Format_RFC822_def two_digits_def shortMonthNames_def getnum2_def digit_val_def
  lookup_month_def daysIn_def isLeap_def After_def time_fields_def Equal_def

lemmas label_defs = lastModifiedTimeLabel_def checktypeNameLabel_def checktypeManifest_def

lemmas build_defs =
  Build_def isModified_def InspectImage_def ImageLabels_def lastModified_def reuse_def
  rebuild_def goBuildDir_def NewImage_def readManifest_def buildTarFromDir_def BuildImage_def
  Checktype_of_def imageName_def Code_name_def path_Base_def

lemmas example_defs =
  example_time_def example_dir_def example_labels_def example_world_def example_toolchain_def

lemma isModified_decision:
  assumes "InspectImage tc w (imageName c) = Inr im" and "lastModified w c = Inr d"
  shows "isModified tc w c = Inr (d = img_LastModified im)"
  using assms by (simp add: isModified_def Equal_def)




text \<open>The decision of \<open>Build\<close> in general, once the image has been inspected and the
  directory walked: equal times lead to the rebuild, different times to the reuse, and the
  reuse leaves the world as it is.\<close>

lemma Build_decision:
  assumes "client_ok w" and "InspectImage tc w (imageName c) = Inr im"
    and "lastModified w c = Inr d"
  shows "Build tc rt w c = (if d = img_LastModified im then rebuild tc w c else reuse tc w c)"
  using assms by (simp add: Build_def isModified_decision)

lemma reuse_world: "snd (reuse tc w c) = w"
  by (simp add: reuse_def split: sum.splits)

text \<open>
  Claim C1, on the code. The image \<open>mycheck-local\<close> records "07 Sep 23 16:35 UTC".
  With the newest file of the directory modified at 16:35:00 exactly, so that the recorded
  time and the directory's time are the same instant and the same text, \<open>Build\<close> compiles
  and issues one build call. With the file modified later, at 16:36:46, \<open>Build\<close> issues
  no build call and returns the descriptor of the old image. The same from the start: a
  first \<open>Build\<close> with no image issues one build call; after a file of the directory is
  modified, at 17:10:05, the second \<open>Build\<close> issues none, one call in total.
\<close>

theorem Build_equal_fingerprint_rebuilds:
  "lastModified (example_world (example_time 16 35 0) [example_labels ''07 Sep 23 16:35 UTC''])
     ''checks/mycheck'' = Inr (example_time 16 35 0)
   \<and> Format_RFC822 (example_time 16 35 0) = ''07 Sep 23 16:35 UTC''
   \<and> Parse_RFC822 ''07 Sep 23 16:35 UTC'' = Some (example_time 16 35 0)
   \<and> build_calls (snd (Build example_toolchain RuntimeDockerd
        (example_world (example_time 16 35 0) [example_labels ''07 Sep 23 16:35 UTC''])
        ''checks/mycheck'')) = 1
   \<and> lastModified (example_world (example_time 16 36 46) [example_labels ''07 Sep 23 16:35 UTC''])
     ''checks/mycheck'' = Inr (example_time 16 36 46)
   \<and> build_calls (snd (Build example_toolchain RuntimeDockerd
        (example_world (example_time 16 36 46) [example_labels ''07 Sep 23 16:35 UTC''])
        ''checks/mycheck'')) = 0
   \<and> build_calls (snd (Build example_toolchain RuntimeDockerd
        (example_world (example_time 16 35 0) []) ''checks/mycheck'')) = 1
   \<and> build_calls (snd (Build example_toolchain RuntimeDockerd
        ((snd (Build example_toolchain RuntimeDockerd
                 (example_world (example_time 16 35 0) []) ''checks/mycheck''))
           \<lparr>fs := [''checks/mycheck'' \<mapsto>
                     the (goBuild example_toolchain (example_dir (example_time 17 10 5)))]\<rparr>)
        ''checks/mycheck'')) = 1"
  by (simp add: build_defs example_defs stamp_defs label_defs)






end
